theory Spec2Isabelle
  imports Complex_Main "HOL-Library.AList"
begin

section \<open>Data model\<close>

text \<open>
  The order ledger of the trading API, embedded shallowly.

  Conventions of the embedding:
  \<^item> a \<open>Decimal\<close> of decimal.js and a value of a NUMERIC column are exact rationals
    (\<open>rat\<close>); the 20 significant digits at which decimal.js rounds a quotient and the
    conversion \<open>toNumber\<close> to a binary float are outside the model;
  \<^item> a JavaScript number holding an id, a size or a timestamp is an \<open>int\<close>;
  \<^item> an optional field (\<open>size?\<close>, \<open>amount?\<close>, \<open>price?\<close>) is an \<open>option\<close>;
  \<^item> a thrown exception is \<open>Inl\<close> of an \<open>error\<close>; every service operation runs inside
    \<open>transaction\<close>, which rolls back on an exception, so \<open>Inl\<close> carries no database
    and \<open>Inr\<close> carries the committed one;
  \<^item> the database is a record of its tables, each a list of rows in insertion order;
    a locking read (\<open>FOR UPDATE\<close>) reads what the plain read reads, and where an
    \<open>ORDER BY\<close> leaves rows of equal key in no fixed order the model keeps table order;
  \<^item> logging is omitted.
  Record fields keep the source's names behind a prefix naming the record
  (\<open>o_\<close> for an order row, \<open>i_\<close> for the order input, and so on).
\<close>

datatype order_side = BUY | SELL | CASH_IN | CASH_OUT

datatype order_type = MARKET | LIMIT

datatype order_status = NEW | FILLED | REJECTED | CANCELLED

record order =
  o_id :: int
  o_instrumentId :: int
  o_userId :: int
  o_size :: int
  o_price :: rat
  o_type :: order_type
  o_side :: order_side
  o_status :: order_status
  o_datetime :: int

record CreateOrderInput =
  i_userId :: int
  i_instrumentId :: int
  i_side :: order_side
  i_type :: order_type
  i_size :: "int option"
  i_amount :: "rat option"
  i_price :: "rat option"

record user =
  u_id :: int
  u_email :: string
  u_accountNumber :: string

record instrument =
  inst_id :: int
  inst_ticker :: string
  inst_name :: string
  inst_type :: string

record LatestMarketData =
  md_instrumentId :: int
  md_close :: rat
  md_previousClose :: rat
  md_date :: int

record db =
  users :: "user list"
  instruments :: "instrument list"
  marketdata :: "LatestMarketData list"
  orders :: "order list"
  nextId :: int
  now :: int

datatype error =
    NotFoundError string
  | BusinessRuleError string
  | DecimalError
  | DatabaseError
  | TypeError

definition ARS_INSTRUMENT_ID :: int where
  "ARS_INSTRUMENT_ID = 66"

subsection \<open>Strings of template literals\<close>

fun nat_str :: "nat \<Rightarrow> string" where
  "nat_str n =
     (if n < 10 then [char_of (48 + n)]
      else nat_str (n div 10) @ [char_of (48 + n mod 10)])"

declare nat_str.simps [simp del]

definition number_str :: "int \<Rightarrow> string" where
  "number_str i = (if i < 0 then CHR ''-'' # nat_str (nat (- i)) else nat_str (nat i))"

fun side_str :: "order_side \<Rightarrow> string" where
  "side_str BUY = ''BUY''"
| "side_str SELL = ''SELL''"
| "side_str CASH_IN = ''CASH_IN''"
| "side_str CASH_OUT = ''CASH_OUT''"

fun status_str :: "order_status \<Rightarrow> string" where
  "status_str NEW = ''NEW''"
| "status_str FILLED = ''FILLED''"
| "status_str REJECTED = ''REJECTED''"
| "status_str CANCELLED = ''CANCELLED''"

subsection \<open>Decimal arithmetic\<close>

text \<open>
  \<open>toDecimalPlaces(2)\<close> under the default rounding mode of decimal.js (half up, a tie
  going away from zero).
\<close>

definition toDecimalPlaces2 :: "rat \<Rightarrow> rat" where
  "toDecimalPlaces2 x =
     (if 0 \<le> x then of_int \<lfloor>x * 100 + 1 / 2\<rfloor> / 100
      else - (of_int \<lfloor>- x * 100 + 1 / 2\<rfloor> / 100))"

text \<open>\<open>new Decimal(size).times(price).toDecimalPlaces(2).toNumber()\<close>\<close>

definition totalAmount :: "order \<Rightarrow> rat" where
  "totalAmount ord = toDecimalPlaces2 (of_int (o_size ord) * o_price ord)"

section \<open>Repositories\<close>

definition findUserById :: "db \<Rightarrow> int \<Rightarrow> user option" where
  "findUserById d userId = find (\<lambda>u. u_id u = userId) (users d)"

definition findInstrumentById :: "db \<Rightarrow> int \<Rightarrow> instrument option" where
  "findInstrumentById d instrumentId = find (\<lambda>i. inst_id i = instrumentId) (instruments d)"

text \<open>The latest row of an instrument: \<open>ORDER BY date DESC LIMIT 1\<close>.\<close>

definition getLatestMarketDataForInstrument :: "db \<Rightarrow> int \<Rightarrow> LatestMarketData option" where
  "getLatestMarketDataForInstrument d instrumentId =
     (case sort_key (\<lambda>r. - md_date r)
             (filter (\<lambda>r. md_instrumentId r = instrumentId) (marketdata d)) of
        [] \<Rightarrow> None
      | row # _ \<Rightarrow> Some row)"

text \<open>
  The two columns of the \<open>orders\<close> table that an order's own values can overflow:
  \<open>size\<close> is INTEGER and \<open>price\<close> is NUMERIC(12, 2). A size outside 32 bits makes the
  INSERT fail (numeric value out of range). A price is rounded to 2 decimals, a tie
  going away from zero, and the INSERT fails when the rounded value has more than 10
  digits before the point.
\<close>

definition integer_column :: "int \<Rightarrow> bool" where
  "integer_column n \<longleftrightarrow> - 2147483648 \<le> n \<and> n \<le> 2147483647"

definition numeric_12_2 :: "rat \<Rightarrow> rat option" where
  "numeric_12_2 x =
     (let r = (if 0 \<le> x then of_int \<lfloor>x * 100 + 1 / 2\<rfloor> / 100
               else - (of_int \<lfloor>- x * 100 + 1 / 2\<rfloor> / 100))
      in if \<bar>r\<bar> < 10000000000 then Some r else None)"

text \<open>
  \<open>createOrder\<close>: the INSERT and its RETURNING row. The id comes from the sequence and the
  timestamp from \<open>NOW()\<close>. The size handed over is a JavaScript number and the price a
  number or a string; the INTEGER column takes no \<open>Infinity\<close> or \<open>NaN\<close> and the NUMERIC column
  no string that is not a number, so the statement fails on them as it does on a value
  out of range. The row returned carries the price as the column stores it. The two
  ids handed over are those of rows the caller has read.
\<close>

datatype js_number = Fin int | PosInfinity | NegInfinity | NaN

datatype price_str = Numeric rat | Undefined_str

record orderData =
  od_instrumentId :: int
  od_userId :: int
  od_size :: js_number
  od_price :: price_str
  od_type :: order_type
  od_side :: order_side
  od_status :: order_status

definition createOrder :: "db \<Rightarrow> orderData \<Rightarrow> error + (db \<times> order)" where
  "createOrder d data =
     (case (od_size data, od_price data) of
        (Fin n, Numeric p) \<Rightarrow>
          if \<not> integer_column n then Inl DatabaseError
          else
            (case numeric_12_2 p of
               None \<Rightarrow> Inl DatabaseError
             | Some stored \<Rightarrow>
                 let row = \<lparr>o_id = nextId d,
                            o_instrumentId = od_instrumentId data,
                            o_userId = od_userId data,
                            o_size = n,
                            o_price = stored,
                            o_type = od_type data,
                            o_side = od_side data,
                            o_status = od_status data,
                            o_datetime = now d\<rparr>
                 in Inr (d\<lparr>orders := orders d @ [row], nextId := nextId d + 1\<rparr>, row))
      | _ \<Rightarrow> Inl DatabaseError)"

text \<open>\<open>getFilledOrdersByUserId\<close>: \<open>WHERE userid = $1 AND status = 'FILLED' ORDER BY datetime ASC\<close>.\<close>

definition getFilledOrdersByUserId :: "db \<Rightarrow> int \<Rightarrow> order list" where
  "getFilledOrdersByUserId d userId =
     sort_key o_datetime (filter (\<lambda>r. o_userId r = userId \<and> o_status r = FILLED) (orders d))"

text \<open>The CASE expression of \<open>getUserPositionForInstrument\<close>, for one row.\<close>

definition position_term :: "order \<Rightarrow> int" where
  "position_term r =
     (if o_side r = BUY then o_size r
      else if o_side r = SELL then - o_size r
      else 0)"

definition getUserPositionForInstrument :: "db \<Rightarrow> int \<Rightarrow> int \<Rightarrow> int" where
  "getUserPositionForInstrument d userId instrumentId =
     sum_list (map position_term
       (filter (\<lambda>r. o_userId r = userId \<and> o_instrumentId r = instrumentId
                    \<and> o_status r = FILLED \<and> (o_side r = BUY \<or> o_side r = SELL))
          (orders d)))"

text \<open>The CASE expression of \<open>getUserAvailableCash\<close>, for one row.\<close>

definition cash_term :: "int \<Rightarrow> order \<Rightarrow> rat" where
  "cash_term arsInstrumentId r =
     (if o_instrumentId r = arsInstrumentId \<and> o_side r = CASH_IN then of_int (o_size r) * o_price r
      else if o_instrumentId r = arsInstrumentId \<and> o_side r = CASH_OUT
      then of_int (- o_size r) * o_price r
      else if o_side r = BUY then of_int (- o_size r) * o_price r
      else if o_side r = SELL then of_int (o_size r) * o_price r
      else 0)"

definition getUserAvailableCash :: "db \<Rightarrow> int \<Rightarrow> int \<Rightarrow> rat" where
  "getUserAvailableCash d userId arsInstrumentId =
     sum_list (map (cash_term arsInstrumentId)
       (filter (\<lambda>r. o_userId r = userId \<and> o_status r = FILLED) (orders d)))"

text \<open>
  \<open>getOrdersByUserId\<close>: the cursor is the timestamp it denotes; a missing limit is 50.
  PostgreSQL refuses a negative LIMIT. Rows of equal timestamp come in table order.
\<close>

record page =
  pg_orders :: "order list"
  pg_nextCursor :: "int option"
  pg_hasMore :: bool

definition matching_orders :: "db \<Rightarrow> int \<Rightarrow> int option \<Rightarrow> order list" where
  "matching_orders d userId cursor =
     sort_key (\<lambda>r. - o_datetime r)
       (filter (\<lambda>r. o_userId r = userId
                    \<and> (case cursor of None \<Rightarrow> True | Some c \<Rightarrow> o_datetime r < c))
          (orders d))"

text \<open>The SELECT of \<open>getOrdersByUserId\<close> with its \<open>LIMIT $2\<close>.\<close>

definition page_query :: "db \<Rightarrow> int \<Rightarrow> int \<Rightarrow> int option \<Rightarrow> error + order list" where
  "page_query d userId rowLimit cursor =
     (if rowLimit < 0 then Inl DatabaseError
      else Inr (take (nat rowLimit) (matching_orders d userId cursor)))"

definition getOrdersByUserId :: "db \<Rightarrow> int \<Rightarrow> int option \<Rightarrow> int option \<Rightarrow> error + page" where
  "getOrdersByUserId d userId limit cursor =
     (let safeLimit = min (case limit of None \<Rightarrow> 50 | Some l \<Rightarrow> l) 200
      in case page_query d userId (safeLimit + 1) cursor of
           Inl e \<Rightarrow> Inl e
         | Inr rows \<Rightarrow>
             let hasMore = (int (length rows) > safeLimit);
                 ords = (if hasMore then butlast rows else rows);
                 nextCursor = (if hasMore \<and> length ords > 0
                               then Some (o_datetime (last ords)) else None)
             in Inr \<lparr>pg_orders = ords, pg_nextCursor = nextCursor, pg_hasMore = hasMore\<rparr>)"

section \<open>Order service: cancellation\<close>

record cancel_response =
  c_success :: bool
  c_message :: string
  c_order :: order
  c_ticker :: string
  c_name :: string
  c_totalAmount :: rat

text \<open>
  \<open>OrderService.cancelOrder\<close>: the locking read of the row, the two checks, the update
  of the status and the read of the instrument, in one transaction. \<open>rows[0]!\<close> of an
  empty result is \<open>undefined\<close>, and reading a field of it throws a \<open>TypeError\<close>.
\<close>

definition cancelOrder :: "db \<Rightarrow> int \<Rightarrow> int \<Rightarrow> error + (db \<times> cancel_response)" where
  "cancelOrder d orderId userId =
     (case find (\<lambda>r. o_id r = orderId) (orders d) of
        None \<Rightarrow> Inl (NotFoundError (''Order with ID '' @ number_str orderId @ '' not found''))
      | Some existingOrder \<Rightarrow>
          if o_userId existingOrder \<noteq> userId
          then Inl (BusinessRuleError ''Order not found or not owned by user'')
          else if o_status existingOrder \<noteq> NEW
          then Inl (BusinessRuleError
                 (''Only NEW orders can be cancelled. Current status: ''
                    @ status_str (o_status existingOrder)))
          else
            let updated = map (\<lambda>r. if o_id r = orderId then r\<lparr>o_status := CANCELLED\<rparr> else r)
                            (orders d)
            in (case find (\<lambda>r. o_id r = orderId) updated of
                  None \<Rightarrow> Inl TypeError
                | Some cancelledOrder \<Rightarrow>
                    (case find (\<lambda>i. inst_id i = o_instrumentId cancelledOrder) (instruments d) of
                       None \<Rightarrow> Inl TypeError
                     | Some instrument \<Rightarrow>
                         Inr (d\<lparr>orders := updated\<rparr>,
                              \<lparr>c_success = True,
                               c_message = ''Order cancelled successfully'',
                               c_order = cancelledOrder,
                               c_ticker = inst_ticker instrument,
                               c_name = inst_name instrument,
                               c_totalAmount = totalAmount cancelledOrder\<rparr>))))"

section \<open>Order service: execution\<close>

record order_response =
  r_success :: bool
  r_order :: order
  r_totalAmount :: rat

text \<open>The response built from a persisted row: the row and its \<open>totalAmount\<close>.\<close>

definition response_of :: "order \<Rightarrow> order_response" where
  "response_of ord = \<lparr>r_success = True, r_order = ord, r_totalAmount = totalAmount ord\<rparr>"

text \<open>
  \<open>validateCashOutFunds\<close>: \<open>Inr None\<close> is the source's \<open>null\<close> (validation passed),
  \<open>Inr (Some _)\<close> the response of the rejected order it has persisted.
\<close>

definition validateCashOutFunds ::
  "db \<Rightarrow> int \<Rightarrow> int \<Rightarrow> error + (db \<times> order_response) option" where
  "validateCashOutFunds d userId orderSize =
     (let availableCash = getUserAvailableCash d userId ARS_INSTRUMENT_ID;
          cashOutAmount = of_int orderSize * 1
      in if availableCash < cashOutAmount
         then (case createOrder d
                      \<lparr>od_instrumentId = ARS_INSTRUMENT_ID,
                       od_userId = userId,
                       od_size = Fin orderSize,
                       od_price = Numeric 1,
                       od_type = MARKET,
                       od_side = CASH_OUT,
                       od_status = REJECTED\<rparr> of
                 Inl e \<Rightarrow> Inl e
               | Inr (d', rejectedOrder) \<Rightarrow> Inr (Some (d', response_of rejectedOrder)))
         else Inr None)"

text \<open>
  \<open>executeCashOperation\<close>. \<open>input.size ?? new Decimal(input.amount!)...\<close>: with neither
  a size nor an amount, \<open>new Decimal(undefined)\<close> throws.
\<close>

definition executeCashOperation :: "db \<Rightarrow> CreateOrderInput \<Rightarrow> error + (db \<times> order_response)" where
  "executeCashOperation d input =
     (if i_instrumentId input \<noteq> ARS_INSTRUMENT_ID
      then Inl (BusinessRuleError
             (side_str (i_side input) @ '' operations must use ARS instrument (ID ''
                @ number_str ARS_INSTRUMENT_ID @ '')''))
      else
        (case (case i_size input of
                 Some s \<Rightarrow> Inr s
               | None \<Rightarrow> (case i_amount input of
                             None \<Rightarrow> Inl DecimalError
                           | Some a \<Rightarrow> Inr \<lfloor>a / 1\<rfloor>)) of
           Inl e \<Rightarrow> Inl e
         | Inr orderSize \<Rightarrow>
             (case (if i_side input = CASH_OUT
                    then validateCashOutFunds d (i_userId input) orderSize
                    else Inr None) of
                Inl e \<Rightarrow> Inl e
              | Inr (Some validationError) \<Rightarrow> Inr validationError
              | Inr None \<Rightarrow>
                  (case createOrder d
                          \<lparr>od_instrumentId = i_instrumentId input,
                           od_userId = i_userId input,
                           od_size = Fin orderSize,
                           od_price = Numeric 1,
                           od_type = i_type input,
                           od_side = i_side input,
                           od_status = FILLED\<rparr> of
                     Inl e \<Rightarrow> Inl e
                   | Inr (d', ord) \<Rightarrow> Inr (d', response_of ord)))))"

text \<open>
  \<open>new Decimal(availableCash).lessThan(new Decimal(size).times(price))\<close> for a numeric
  price: an infinite size times a price is infinite with the sign of the product, or
  \<open>NaN\<close> when the price is 0, and no comparison with \<open>NaN\<close> holds.
\<close>

fun cash_lessThan_cost :: "rat \<Rightarrow> js_number \<Rightarrow> rat \<Rightarrow> bool" where
  "cash_lessThan_cost availableCash (Fin n) p = (availableCash < of_int n * p)"
| "cash_lessThan_cost availableCash PosInfinity p = (0 < p)"
| "cash_lessThan_cost availableCash NegInfinity p = (p < 0)"
| "cash_lessThan_cost availableCash NaN p = False"

text \<open>\<open>currentPosition < orderData.size\<close> on JavaScript numbers.\<close>

fun position_less_size :: "int \<Rightarrow> js_number \<Rightarrow> bool" where
  "position_less_size currentPosition (Fin n) = (currentPosition < n)"
| "position_less_size currentPosition PosInfinity = True"
| "position_less_size currentPosition NegInfinity = False"
| "position_less_size currentPosition NaN = False"

datatype validation_failure = InsufficientFunds | InsufficientShares

text \<open>
  \<open>validateOrder\<close>: \<open>Inr None\<close> is \<open>null\<close>, \<open>Inr (Some _)\<close> the error message (its text is
  only logged). Multiplying by a price that is no number throws.
\<close>

definition validateOrder ::
  "db \<Rightarrow> int \<Rightarrow> int \<Rightarrow> order_side \<Rightarrow> js_number \<Rightarrow> price_str
     \<Rightarrow> error + validation_failure option" where
  "validateOrder d userId instrumentId side orderSize price =
     (if side = BUY then
        (let availableCash = getUserAvailableCash d userId ARS_INSTRUMENT_ID
         in case price of
              Undefined_str \<Rightarrow> Inl DecimalError
            | Numeric p \<Rightarrow>
                if cash_lessThan_cost availableCash orderSize p
                then Inr (Some InsufficientFunds) else Inr None)
      else if side = SELL then
        (let currentPosition = getUserPositionForInstrument d userId instrumentId
         in if position_less_size currentPosition orderSize
            then Inr (Some InsufficientShares) else Inr None)
      else Inr None)"

text \<open>
  Step 5 of \<open>executeOrder\<close>: the close of the latest market data for a MARKET order,
  \<open>String(input.price)\<close> for a LIMIT order, which is \<open>"undefined"\<close> when no price came.
  The caller has thrown already when a MARKET order has no market data.
\<close>

definition executionPrice :: "CreateOrderInput \<Rightarrow> LatestMarketData option \<Rightarrow> error + price_str" where
  "executionPrice input marketData =
     (if i_type input = MARKET
      then (case marketData of None \<Rightarrow> Inl TypeError | Some m \<Rightarrow> Inr (Numeric (md_close m)))
      else (case i_price input of None \<Rightarrow> Inr Undefined_str | Some p \<Rightarrow> Inr (Numeric p)))"

text \<open>
  Step 6 of \<open>executeOrder\<close>: the given size, or
  \<open>new Decimal(input.amount!).dividedBy(executionPrice).floor().toNumber()\<close>. The
  constructor throws on \<open>undefined\<close> and the division on a string that is no number;
  a division by 0 gives \<open>Infinity\<close>, \<open>-Infinity\<close> or (0 by 0) \<open>NaN\<close>.
\<close>

definition orderSize :: "CreateOrderInput \<Rightarrow> price_str \<Rightarrow> error + js_number" where
  "orderSize input price =
     (case i_size input of
        Some s \<Rightarrow> Inr (Fin s)
      | None \<Rightarrow>
          (case i_amount input of
             None \<Rightarrow> Inl DecimalError
           | Some a \<Rightarrow>
               (case price of
                  Undefined_str \<Rightarrow> Inl DecimalError
                | Numeric p \<Rightarrow>
                    if p = 0
                    then Inr (if 0 < a then PosInfinity else if a < 0 then NegInfinity else NaN)
                    else Inr (Fin \<lfloor>a / p\<rfloor>))))"

text \<open>Step 8 of \<open>executeOrder\<close>.\<close>

definition orderStatus :: "CreateOrderInput \<Rightarrow> order_status" where
  "orderStatus input = (if i_type input = MARKET then FILLED else NEW)"

text \<open>The INSERT of the order and the response, shared by steps 6, 7 and 9.\<close>

definition persist ::
  "db \<Rightarrow> CreateOrderInput \<Rightarrow> js_number \<Rightarrow> price_str \<Rightarrow> order_status
     \<Rightarrow> error + (db \<times> order_response)" where
  "persist d input sz price status =
     (case createOrder d
             \<lparr>od_instrumentId = i_instrumentId input,
              od_userId = i_userId input,
              od_size = sz,
              od_price = price,
              od_type = i_type input,
              od_side = i_side input,
              od_status = status\<rparr> of
        Inl e \<Rightarrow> Inl e
      | Inr (d', ord) \<Rightarrow> Inr (d', response_of ord))"

definition executeOrder :: "db \<Rightarrow> CreateOrderInput \<Rightarrow> error + (db \<times> order_response)" where
  "executeOrder d input =
     (case findUserById d (i_userId input) of
        None \<Rightarrow> Inl (NotFoundError
                  (''User with ID '' @ number_str (i_userId input) @ '' not found''))
      | Some user \<Rightarrow>
     (case findInstrumentById d (i_instrumentId input) of
        None \<Rightarrow> Inl (NotFoundError
                  (''Instrument with ID '' @ number_str (i_instrumentId input) @ '' not found''))
      | Some instrument \<Rightarrow>
          if i_side input = CASH_IN \<or> i_side input = CASH_OUT
          then executeCashOperation d input
          else
            let marketData = getLatestMarketDataForInstrument d (i_instrumentId input)
            in if marketData = None \<and> i_type input = MARKET
               then Inl (BusinessRuleError
                      (''No market data available for instrument '' @ inst_ticker instrument))
               else
                 (case executionPrice input marketData of
                    Inl e \<Rightarrow> Inl e
                  | Inr price \<Rightarrow>
                 (case orderSize input price of
                    Inl e \<Rightarrow> Inl e
                  | Inr sz \<Rightarrow>
                      if i_size input = None \<and> sz = Fin 0
                      then persist d input (Fin 0) price REJECTED
                      else
                        (case validateOrder d (i_userId input) (i_instrumentId input)
                                (i_side input) sz price of
                           Inl e \<Rightarrow> Inl e
                         | Inr (Some validationError) \<Rightarrow> persist d input sz price REJECTED
                         | Inr None \<Rightarrow> persist d input sz price (orderStatus input))))))"

section \<open>Portfolio service\<close>

record PositionCalculation =
  pc_instrumentId :: int
  pc_quantity :: int
  pc_totalCost :: rat

record Position =
  p_instrumentId :: int
  p_ticker :: string
  p_name :: string
  p_quantity :: int
  p_averageBuyPrice :: rat
  p_currentPrice :: rat
  p_marketValue :: rat
  p_totalReturn :: rat
  p_dailyReturn :: rat

record Portfolio =
  pf_userId :: int
  pf_totalBalance :: rat
  pf_availableCash :: rat
  pf_positions :: "Position list"

text \<open>
  \<open>calculatePositions\<close>. What one order does to the position object of its instrument
  (the object is mutated in place; \<open>continue\<close> leaves it as it is):
\<close>

definition applyOrder :: "PositionCalculation \<Rightarrow> order \<Rightarrow> PositionCalculation" where
  "applyOrder position ord =
     (if o_side ord = BUY then
        position\<lparr>pc_quantity := pc_quantity position + o_size ord,
                 pc_totalCost := pc_totalCost position + of_int (o_size ord) * o_price ord\<rparr>
      else if o_side ord = SELL then
        (if pc_quantity position = 0 then position
         else
           let avgCost = pc_totalCost position / of_int (pc_quantity position)
           in position\<lparr>pc_quantity := pc_quantity position - o_size ord,
                       pc_totalCost := pc_totalCost position - of_int (o_size ord) * avgCost\<rparr>)
      else position)"

text \<open>
  One round of the loop over the orders. The \<open>Map\<close> is an association list in insertion
  order: a new key goes to the end, a known key keeps its place.
\<close>

definition replayOrder ::
  "(int \<times> PositionCalculation) list \<Rightarrow> order \<Rightarrow> (int \<times> PositionCalculation) list" where
  "replayOrder internalMap ord =
     (let key = o_instrumentId ord;
          position = (case map_of internalMap key of
                        None \<Rightarrow> \<lparr>pc_instrumentId = key, pc_quantity = 0, pc_totalCost = 0\<rparr>
                      | Some pos \<Rightarrow> pos)
      in AList.update key (applyOrder position ord) internalMap)"

definition calculatePositions :: "order list \<Rightarrow> (int \<times> PositionCalculation) list" where
  "calculatePositions ords =
     filter (\<lambda>(instrumentId, pos). pc_quantity pos > 0) (foldl replayOrder [] ords)"

text \<open>
  \<open>getLatestMarketDataForInstruments\<close> and \<open>findInstrumentsByIds\<close>, read as the maps the
  service builds from them. An instrument id is a primary key; of two rows with one id
  the model reads the first.
\<close>

definition getLatestMarketDataForInstruments ::
  "db \<Rightarrow> int list \<Rightarrow> int \<Rightarrow> LatestMarketData option" where
  "getLatestMarketDataForInstruments d instrumentIds =
     (\<lambda>k. if k \<in> set instrumentIds then getLatestMarketDataForInstrument d k else None)"

definition findInstrumentsByIds :: "db \<Rightarrow> int list \<Rightarrow> instrument list" where
  "findInstrumentsByIds d instrumentIds =
     (if instrumentIds = [] then []
      else filter (\<lambda>i. inst_id i \<in> set instrumentIds) (instruments d))"

text \<open>
  \<open>enrichPositions\<close>: one position for an entry whose market data and instrument are
  both there, none otherwise. Every entry \<open>calculatePositions\<close> returns has a positive
  quantity, so the average is a division by a number that is not 0.
\<close>

definition enrichPosition ::
  "(int \<Rightarrow> LatestMarketData option) \<Rightarrow> (int \<Rightarrow> instrument option)
     \<Rightarrow> int \<times> PositionCalculation \<Rightarrow> Position list" where
  "enrichPosition marketDataMap instrumentMap entry =
     (case (marketDataMap (fst entry), instrumentMap (fst entry)) of
        (Some marketData, Some instrument) \<Rightarrow>
          let calculation = snd entry;
              currentPrice = md_close marketData;
              previousPrice = md_previousClose marketData;
              marketValue = of_int (pc_quantity calculation) * currentPrice;
              averageBuyPrice = pc_totalCost calculation / of_int (pc_quantity calculation);
              totalReturn = (if averageBuyPrice > 0
                             then toDecimalPlaces2
                                    ((currentPrice - averageBuyPrice) / averageBuyPrice * 100)
                             else 0);
              dailyReturn = (if previousPrice > 0
                             then toDecimalPlaces2
                                    ((currentPrice - previousPrice) / previousPrice * 100)
                             else 0)
          in [\<lparr>p_instrumentId = fst entry,
               p_ticker = inst_ticker instrument,
               p_name = inst_name instrument,
               p_quantity = pc_quantity calculation,
               p_averageBuyPrice = toDecimalPlaces2 averageBuyPrice,
               p_currentPrice = toDecimalPlaces2 currentPrice,
               p_marketValue = toDecimalPlaces2 marketValue,
               p_totalReturn = totalReturn,
               p_dailyReturn = dailyReturn\<rparr>]
      | _ \<Rightarrow> [])"

definition enrichPositions ::
  "(int \<times> PositionCalculation) list \<Rightarrow> (int \<Rightarrow> LatestMarketData option)
     \<Rightarrow> (int \<Rightarrow> instrument option) \<Rightarrow> Position list" where
  "enrichPositions positionCalculations marketDataMap instrumentMap =
     sort_key (\<lambda>p. - p_marketValue p)
       (concat (map (enrichPosition marketDataMap instrumentMap) positionCalculations))"

definition getUserPortfolio :: "db \<Rightarrow> int \<Rightarrow> error + Portfolio" where
  "getUserPortfolio d userId =
     (case findUserById d userId of
        None \<Rightarrow> Inl (NotFoundError (''User with ID '' @ number_str userId @ '' not found''))
      | Some user \<Rightarrow>
          let ords = getFilledOrdersByUserId d userId;
              availableCash = getUserAvailableCash d userId ARS_INSTRUMENT_ID;
              stockOrders = filter (\<lambda>r. o_instrumentId r \<noteq> ARS_INSTRUMENT_ID) ords;
              positionCalculations = calculatePositions stockOrders
          in if positionCalculations = []
             then Inr \<lparr>pf_userId = userId,
                       pf_totalBalance = availableCash,
                       pf_availableCash = availableCash,
                       pf_positions = []\<rparr>
             else
               let instrumentIds = map fst positionCalculations;
                   marketDataMap = getLatestMarketDataForInstruments d instrumentIds;
                   instrumentMap =
                     map_of (map (\<lambda>i. (inst_id i, i)) (findInstrumentsByIds d instrumentIds));
                   enrichedPositions =
                     enrichPositions positionCalculations marketDataMap instrumentMap;
                   portfolioValue = foldl (\<lambda>sum p. sum + p_marketValue p) 0 enrichedPositions;
                   totalBalance = availableCash + portfolioValue
               in Inr \<lparr>pf_userId = userId,
                         pf_totalBalance = totalBalance,
                         pf_availableCash = availableCash,
                         pf_positions = enrichedPositions\<rparr>)"

section \<open>The replay as the specification words it\<close>

text \<open>
  The running pair (quantity, totalCost) of one instrument, as the specification states
  the replay: a BUY adds the size and size times price; a SELL of a quantity 0 is
  skipped; another SELL takes off the size and size times (totalCost / quantity).
\<close>

fun spec_replay :: "int \<times> rat \<Rightarrow> order \<Rightarrow> int \<times> rat" where
  "spec_replay (quantity, totalCost) ord =
     (case o_side ord of
        BUY \<Rightarrow> (quantity + o_size ord, totalCost + of_int (o_size ord) * o_price ord)
      | SELL \<Rightarrow>
          if quantity = 0 then (quantity, totalCost)
          else (quantity - o_size ord,
                totalCost - of_int (o_size ord) * (totalCost / of_int quantity))
      | _ \<Rightarrow> (quantity, totalCost))"

definition spec_position :: "int \<Rightarrow> order list \<Rightarrow> int \<times> rat" where
  "spec_position instrumentId ords =
     foldl spec_replay (0, 0) (filter (\<lambda>r. o_instrumentId r = instrumentId) ords)"

section \<open>Example data\<close>

definition stock_order :: "int \<Rightarrow> order_side \<Rightarrow> int \<Rightarrow> rat \<Rightarrow> order_type \<Rightarrow> order_status \<Rightarrow> int \<Rightarrow> order" where
  "stock_order n side sz p ty st t =
     \<lparr>o_id = n, o_instrumentId = 47, o_userId = 1, o_size = sz, o_price = p,
      o_type = ty, o_side = side, o_status = st, o_datetime = t\<rparr>"

definition cash_in_1000 :: order where
  "cash_in_1000 =
     \<lparr>o_id = 1, o_instrumentId = 66, o_userId = 1, o_size = 1000, o_price = 1,
      o_type = MARKET, o_side = CASH_IN, o_status = FILLED, o_datetime = 10\<rparr>"

definition demo_db :: "order list \<Rightarrow> db" where
  "demo_db ords =
     \<lparr>users = [\<lparr>u_id = 1, u_email = ''a@example.com'', u_accountNumber = ''10001''\<rparr>,
               \<lparr>u_id = 2, u_email = ''b@example.com'', u_accountNumber = ''10002''\<rparr>],
      instruments = [\<lparr>inst_id = 66, inst_ticker = ''ARS'', inst_name = ''PESOS'',
                       inst_type = ''MONEDA''\<rparr>,
                     \<lparr>inst_id = 47, inst_ticker = ''PAMP'', inst_name = ''Pampa Holding'',
                       inst_type = ''ACCIONES''\<rparr>],
      marketdata = [\<lparr>md_instrumentId = 47, md_close = 150, md_previousClose = 140,
                      md_date = 1\<rparr>],
      orders = ords,
      nextId = 100,
      now = 1000\<rparr>"

definition order_input ::
  "int \<Rightarrow> order_side \<Rightarrow> order_type \<Rightarrow> int option \<Rightarrow> rat option \<Rightarrow> rat option
     \<Rightarrow> CreateOrderInput" where
  "order_input instrumentId side ty sz amount p =
     \<lparr>i_userId = 1, i_instrumentId = instrumentId, i_side = side, i_type = ty,
      i_size = sz, i_amount = amount, i_price = p\<rparr>"

definition new_limit :: order where
  "new_limit = stock_order 5 BUY 2 100 LIMIT NEW 20"

definition three_orders :: "order list" where
  "three_orders =
     [cash_in_1000,
      stock_order 2 BUY 1 150 MARKET FILLED 20,
      stock_order 3 SELL 1 150 MARKET FILLED 30]"

definition held_2 :: order where
  "held_2 = stock_order 2 BUY 2 150 MARKET FILLED 20"

definition buy_10_sell_4 :: "order list" where
  "buy_10_sell_4 =
     [stock_order 2 BUY 10 100 MARKET FILLED 20, stock_order 3 SELL 4 120 MARKET FILLED 30]"

definition buy_10_sell_10 :: "order list" where
  "buy_10_sell_10 =
     [stock_order 2 BUY 10 100 MARKET FILLED 20, stock_order 3 SELL 10 120 MARKET FILLED 30]"

definition buy_1_sell_3 :: "order list" where
  "buy_1_sell_3 =
     [stock_order 2 BUY 1 100 MARKET FILLED 20, stock_order 3 SELL 3 100 MARKET FILLED 30]"

section \<open>The example data, evaluated\<close>

lemmas demo_defs = demo_db_def cash_in_1000_def stock_order_def order_input_def

lemma demo_user: "findUserById (demo_db ords) 1
    = Some \<lparr>u_id = 1, u_email = ''a@example.com'', u_accountNumber = ''10001''\<rparr>"
  by (simp add: findUserById_def demo_db_def)

lemma demo_ars: "findInstrumentById (demo_db ords) 66
    = Some \<lparr>inst_id = 66, inst_ticker = ''ARS'', inst_name = ''PESOS'', inst_type = ''MONEDA''\<rparr>"
  by (simp add: findInstrumentById_def demo_db_def)

lemma demo_pamp: "findInstrumentById (demo_db ords) 47
    = Some \<lparr>inst_id = 47, inst_ticker = ''PAMP'', inst_name = ''Pampa Holding'',
             inst_type = ''ACCIONES''\<rparr>"
  by (simp add: findInstrumentById_def demo_db_def)

lemma demo_cash: "getUserAvailableCash (demo_db [cash_in_1000]) 1 ARS_INSTRUMENT_ID = 1000"
  by (simp add: getUserAvailableCash_def cash_term_def demo_defs ARS_INSTRUMENT_ID_def)


section \<open>Cancellation: properties\<close>

lemma find_map_status:
  "find (\<lambda>r. o_id r = k) (map (\<lambda>r. if o_id r = k then r\<lparr>o_status := s\<rparr> else r) xs)
     = map_option (\<lambda>r. r\<lparr>o_status := s\<rparr>) (find (\<lambda>r. o_id r = k) xs)"
  by (induction xs) auto

text \<open>
  C6. \<open>cancelOrder(orderId, userId)\<close> fails with NotFound when no order has the id;
  fails with BusinessRule, under the fixed message "Order not found or not owned by
  user", when the order belongs to another user; fails with BusinessRule, the message
  ending in the current status, when the status is not NEW; and when the order exists,
  belongs to the user and is NEW (and its instrument is there, as the foreign key
  demands) it sets the status of that row to CANCELLED and returns the row with the
  ticker and name of its instrument. A call that returns has met all three conditions.
\<close>

theorem cancelOrder_cases:
  "(find (\<lambda>r. o_id r = orderId) (orders d) = None \<longrightarrow>
      cancelOrder d orderId userId
        = Inl (NotFoundError (''Order with ID '' @ number_str orderId @ '' not found'')))
   \<and> (\<forall>ex. find (\<lambda>r. o_id r = orderId) (orders d) = Some ex \<and> o_userId ex \<noteq> userId \<longrightarrow>
         cancelOrder d orderId userId
           = Inl (BusinessRuleError ''Order not found or not owned by user''))
   \<and> (\<forall>ex. find (\<lambda>r. o_id r = orderId) (orders d) = Some ex \<and> o_userId ex = userId
            \<and> o_status ex \<noteq> NEW \<longrightarrow>
         cancelOrder d orderId userId
           = Inl (BusinessRuleError
                (''Only NEW orders can be cancelled. Current status: ''
                   @ status_str (o_status ex))))
   \<and> (\<forall>ex inst. find (\<lambda>r. o_id r = orderId) (orders d) = Some ex \<and> o_userId ex = userId
            \<and> o_status ex = NEW
            \<and> find (\<lambda>i. inst_id i = o_instrumentId ex) (instruments d) = Some inst \<longrightarrow>
         cancelOrder d orderId userId
           = Inr (d\<lparr>orders := map (\<lambda>r. if o_id r = orderId then r\<lparr>o_status := CANCELLED\<rparr> else r)
                                 (orders d)\<rparr>,
                  \<lparr>c_success = True,
                   c_message = ''Order cancelled successfully'',
                   c_order = ex\<lparr>o_status := CANCELLED\<rparr>,
                   c_ticker = inst_ticker inst,
                   c_name = inst_name inst,
                   c_totalAmount = totalAmount ex\<rparr>))
   \<and> (\<forall>d' resp. cancelOrder d orderId userId = Inr (d', resp) \<longrightarrow>
         (\<exists>ex. find (\<lambda>r. o_id r = orderId) (orders d) = Some ex \<and> o_userId ex = userId
               \<and> o_status ex = NEW \<and> o_status (c_order resp) = CANCELLED))"
  by (auto simp: cancelOrder_def find_map_status totalAmount_def Let_def
           split: option.splits if_splits)

theorem cancelOrder_cases_witness:
  "cancelOrder (demo_db [cash_in_1000, new_limit]) 7 1
     = Inl (NotFoundError ''Order with ID 7 not found'')
   \<and> cancelOrder (demo_db [cash_in_1000, new_limit]) 5 2
     = Inl (BusinessRuleError ''Order not found or not owned by user'')
   \<and> cancelOrder (demo_db [cash_in_1000, new_limit]) 1 1
     = Inl (BusinessRuleError ''Only NEW orders can be cancelled. Current status: FILLED'')
   \<and> (\<exists>d' resp. cancelOrder (demo_db [cash_in_1000, new_limit]) 5 1 = Inr (d', resp)
        \<and> orders d' = [cash_in_1000, new_limit\<lparr>o_status := CANCELLED\<rparr>]
        \<and> c_order resp = new_limit\<lparr>o_status := CANCELLED\<rparr>
        \<and> c_ticker resp = ''PAMP'' \<and> c_name resp = ''Pampa Holding'')"
proof -
  let ?d = "demo_db [cash_in_1000, new_limit]"
  have n7: "number_str 7 = ''7''" by code_simp
  have f7: "find (\<lambda>r. o_id r = 7) (orders ?d) = None"
    by (simp add: demo_defs new_limit_def)
  have f5: "find (\<lambda>r. o_id r = 5) (orders ?d) = Some new_limit"
    by (simp add: demo_defs new_limit_def)
  have f1: "find (\<lambda>r. o_id r = 1) (orders ?d) = Some cash_in_1000"
    by (simp add: demo_defs new_limit_def)
  have fi: "find (\<lambda>i. inst_id i = o_instrumentId new_limit) (instruments ?d)
              = Some \<lparr>inst_id = 47, inst_ticker = ''PAMP'', inst_name = ''Pampa Holding'',
                       inst_type = ''ACCIONES''\<rparr>"
    by (simp add: demo_defs new_limit_def)
  have a: "cancelOrder ?d 7 1 = Inl (NotFoundError ''Order with ID 7 not found'')"
    using cancelOrder_cases [of 7 ?d 1] f7 n7 by simp
  have b: "cancelOrder ?d 5 2 = Inl (BusinessRuleError ''Order not found or not owned by user'')"
    using cancelOrder_cases [of 5 ?d 2] f5 by (simp add: demo_defs new_limit_def)
  have c: "cancelOrder ?d 1 1
             = Inl (BusinessRuleError ''Only NEW orders can be cancelled. Current status: FILLED'')"
    using cancelOrder_cases [of 1 ?d 1] f1 by (simp add: demo_defs new_limit_def)
  have e: "\<exists>d' resp. cancelOrder ?d 5 1 = Inr (d', resp)
        \<and> orders d' = [cash_in_1000, new_limit\<lparr>o_status := CANCELLED\<rparr>]
        \<and> c_order resp = new_limit\<lparr>o_status := CANCELLED\<rparr>
        \<and> c_ticker resp = ''PAMP'' \<and> c_name resp = ''Pampa Holding''"
    using cancelOrder_cases [of 5 ?d 1] f5 fi by (simp add: demo_defs new_limit_def)
  from a b c e show ?thesis by blast
qed

section \<open>Pagination: properties\<close>

lemma matching_orders_desc:
  "sorted (map (\<lambda>r. - o_datetime r) (matching_orders d userId cursor))"
  by (simp add: matching_orders_def)

lemma matching_orders_set:
  "set (matching_orders d userId cursor)
     = {r \<in> set (orders d). o_userId r = userId
          \<and> (case cursor of None \<Rightarrow> True | Some c \<Rightarrow> o_datetime r < c)}"
  by (auto simp: matching_orders_def)

lemma butlast_take_Suc:
  "n < length xs \<Longrightarrow> butlast (take (Suc n) xs) = take n xs"
  by (simp add: butlast_take)

text \<open>
  C7. A paginated read with a limit between 1 and 200 (the default 50 when none is
  given): the query asks for limit + 1 rows of the user's orders, newest first, with
  a timestamp before the cursor when there is one. When more than limit rows match,
  the extra row is dropped, \<open>hasMore\<close> is true and \<open>nextCursor\<close> is the timestamp of the
  last order returned; otherwise all matching rows are returned, \<open>hasMore\<close> is false
  and \<open>nextCursor\<close> is null. At most min(limit, 200) orders come back, newest first,
  all of them the user's and before the cursor.
\<close>

theorem getOrdersByUserId_page:
  assumes "lmt = (case limit of None \<Rightarrow> 50 | Some l \<Rightarrow> l)" and "1 \<le> lmt" and "lmt \<le> 200"
  shows "\<exists>pg. getOrdersByUserId d userId limit cursor = Inr pg
    \<and> page_query d userId (lmt + 1) cursor
        = Inr (take (nat lmt + 1) (matching_orders d userId cursor))
    \<and> (int (length (matching_orders d userId cursor)) > lmt \<longrightarrow>
         pg_hasMore pg
         \<and> pg_orders pg = take (nat lmt) (matching_orders d userId cursor)
         \<and> pg_nextCursor pg = Some (o_datetime (last (pg_orders pg))))
    \<and> (int (length (matching_orders d userId cursor)) \<le> lmt \<longrightarrow>
         \<not> pg_hasMore pg
         \<and> pg_orders pg = matching_orders d userId cursor
         \<and> pg_nextCursor pg = None)
    \<and> int (length (pg_orders pg)) \<le> min lmt 200
    \<and> sorted (map (\<lambda>r. - o_datetime r) (pg_orders pg))
    \<and> (\<forall>r \<in> set (pg_orders pg). r \<in> set (orders d) \<and> o_userId r = userId
          \<and> (\<forall>c. cursor = Some c \<longrightarrow> o_datetime r < c))"
proof -
  let ?m = "matching_orders d userId cursor"
  have safe: "min (case limit of None \<Rightarrow> 50 | Some l \<Rightarrow> l) 200 = lmt"
    using assms by simp
  have q: "page_query d userId (lmt + 1) cursor = Inr (take (nat lmt + 1) ?m)"
    using assms by (simp add: page_query_def nat_add_distrib)
  show ?thesis
  proof (cases "int (length ?m) > lmt")
    case True
    with assms(2) have len: "nat lmt < length ?m" by linarith
    have bl: "butlast (take (Suc (nat lmt)) ?m) = take (nat lmt) ?m"
      by (rule butlast_take_Suc [OF len])
    have pos: "0 < nat lmt" using assms by simp
    let ?pg = "\<lparr>pg_orders = take (nat lmt) ?m,
                pg_nextCursor = Some (o_datetime (last (take (nat lmt) ?m))),
                pg_hasMore = True\<rparr>"
    have r: "getOrdersByUserId d userId limit cursor = Inr ?pg"
      unfolding getOrdersByUserId_def safe Let_def q
      using True len pos by (simp add: bl)
    have s: "sorted (map (\<lambda>r. - o_datetime r) (take (nat lmt) ?m))"
      using matching_orders_desc [of d userId cursor] by (simp add: take_map [symmetric] sorted_wrt_take)
    have m: "\<forall>r \<in> set (take (nat lmt) ?m). r \<in> set (orders d) \<and> o_userId r = userId
          \<and> (\<forall>c. cursor = Some c \<longrightarrow> o_datetime r < c)"
      using set_take_subset [of "nat lmt" ?m] by (auto simp: matching_orders_set)
    show ?thesis
      using r q True s m assms(2,3) by (intro exI [of _ ?pg]) auto
  next
    case False
    with assms(2) have len: "length ?m \<le> nat lmt" by linarith
    let ?pg = "\<lparr>pg_orders = ?m, pg_nextCursor = None, pg_hasMore = False\<rparr>"
    have r: "getOrdersByUserId d userId limit cursor = Inr ?pg"
      unfolding getOrdersByUserId_def safe Let_def q
      using False len by simp
    have m: "\<forall>r \<in> set ?m. r \<in> set (orders d) \<and> o_userId r = userId
          \<and> (\<forall>c. cursor = Some c \<longrightarrow> o_datetime r < c)"
      by (auto simp: matching_orders_set)
    show ?thesis
      using r q False matching_orders_desc [of d userId cursor] m assms(3)
      by (intro exI [of _ ?pg]) auto
  qed
qed

theorem getOrdersByUserId_page_witness:
  "getOrdersByUserId (demo_db three_orders) 1 (Some 2) None
     = Inr \<lparr>pg_orders = [stock_order 3 SELL 1 150 MARKET FILLED 30,
                         stock_order 2 BUY 1 150 MARKET FILLED 20],
            pg_nextCursor = Some 20, pg_hasMore = True\<rparr>
   \<and> getOrdersByUserId (demo_db three_orders) 1 None (Some 20)
     = Inr \<lparr>pg_orders = [cash_in_1000], pg_nextCursor = None, pg_hasMore = False\<rparr>"
proof -
  let ?d = "demo_db three_orders"
  have m1: "matching_orders ?d 1 None
              = [stock_order 3 SELL 1 150 MARKET FILLED 30,
                 stock_order 2 BUY 1 150 MARKET FILLED 20, cash_in_1000]"
    by (simp add: matching_orders_def demo_defs three_orders_def)
  have m2: "matching_orders ?d 1 (Some 20) = [cash_in_1000]"
    by (simp add: matching_orders_def demo_defs three_orders_def)
  have a: "getOrdersByUserId ?d 1 (Some 2) None
     = Inr \<lparr>pg_orders = [stock_order 3 SELL 1 150 MARKET FILLED 30,
                         stock_order 2 BUY 1 150 MARKET FILLED 20],
            pg_nextCursor = Some 20, pg_hasMore = True\<rparr>"
    using getOrdersByUserId_page [of 2 "Some 2" ?d 1 None]
    by (auto simp: m1 stock_order_def numeral_2_eq_2)
  have b: "getOrdersByUserId ?d 1 None (Some 20)
     = Inr \<lparr>pg_orders = [cash_in_1000], pg_nextCursor = None, pg_hasMore = False\<rparr>"
    using getOrdersByUserId_page [of 50 None ?d 1 "Some 20"]
    by (auto simp: m2)
  from a b show ?thesis by simp
qed

section \<open>Rounding: properties\<close>










lemma numeric_12_2_one: "numeric_12_2 1 = Some 1"
  by code_simp

section \<open>Cash operations: properties\<close>

lemma executeCashOperation_result:
  assumes "i_instrumentId input = ARS_INSTRUMENT_ID"
      and "i_size input = Some sz
           \<or> (i_size input = None \<and> i_amount input = Some a \<and> sz = \<lfloor>a / 1\<rfloor>)"
      and "integer_column sz"
  shows "executeCashOperation d input =
     (let rejected = (i_side input = CASH_OUT
                       \<and> getUserAvailableCash d (i_userId input) ARS_INSTRUMENT_ID < of_int sz);
          row = \<lparr>o_id = nextId d,
                 o_instrumentId = ARS_INSTRUMENT_ID,
                 o_userId = i_userId input,
                 o_size = sz,
                 o_price = 1,
                 o_type = (if rejected then MARKET else i_type input),
                 o_side = i_side input,
                 o_status = (if rejected then REJECTED else FILLED),
                 o_datetime = now d\<rparr>
      in Inr (d\<lparr>orders := orders d @ [row], nextId := nextId d + 1\<rparr>, response_of row))"
  using assms
  by (auto simp: executeCashOperation_def validateCashOutFunds_def createOrder_def
        numeric_12_2_one Let_def)

lemma executeOrder_cash:
  assumes "findUserById d (i_userId input) = Some u"
      and "findInstrumentById d (i_instrumentId input) = Some ins"
      and "i_side input = CASH_IN \<or> i_side input = CASH_OUT"
  shows "executeOrder d input = executeCashOperation d input"
  using assms by (auto simp: executeOrder_def)

text \<open>
  C4. An order with side CASH_IN or CASH_OUT, its user and instrument found: when the
  instrument is not the cash instrument, \<open>executeOrder\<close> fails with a BusinessRule
  error. Otherwise the size is the given size or the floor of amount / 1, and, for a
  size that the INTEGER column of the ledger holds, one row is persisted and returned
  as a successful call, at price 1: REJECTED for a CASH_OUT whose size exceeds the
  available cash, FILLED for every other cash operation, never NEW.
\<close>

theorem cash_operation_outcomes:
  assumes "findUserById d (i_userId input) = Some u"
      and "findInstrumentById d (i_instrumentId input) = Some ins"
      and "i_side input = CASH_IN \<or> i_side input = CASH_OUT"
  shows "(i_instrumentId input \<noteq> ARS_INSTRUMENT_ID \<longrightarrow>
           (\<exists>msg. executeOrder d input = Inl (BusinessRuleError msg)))
    \<and> (i_instrumentId input = ARS_INSTRUMENT_ID \<longrightarrow>
         (\<forall>sz a. (i_size input = Some sz
                  \<or> (i_size input = None \<and> i_amount input = Some a \<and> sz = \<lfloor>a / 1\<rfloor>))
                \<and> - 2147483648 \<le> sz \<and> sz \<le> 2147483647 \<longrightarrow>
           (\<exists>row. executeOrder d input
                     = Inr (d\<lparr>orders := orders d @ [row], nextId := nextId d + 1\<rparr>,
                            response_of row)
              \<and> r_success (response_of row)
              \<and> o_size row = sz \<and> o_price row = 1
              \<and> o_side row = i_side input \<and> o_userId row = i_userId input
              \<and> o_instrumentId row = ARS_INSTRUMENT_ID
              \<and> o_status row
                  = (if i_side input = CASH_OUT
                        \<and> getUserAvailableCash d (i_userId input) ARS_INSTRUMENT_ID < of_int sz
                     then REJECTED else FILLED)
              \<and> o_status row \<noteq> NEW)))"
proof (intro conjI impI allI)
  assume "i_instrumentId input \<noteq> ARS_INSTRUMENT_ID"
  then show "\<exists>msg. executeOrder d input = Inl (BusinessRuleError msg)"
    by (simp add: executeOrder_cash [OF assms] executeCashOperation_def)
next
  fix sz a
  assume ars: "i_instrumentId input = ARS_INSTRUMENT_ID"
     and h: "(i_size input = Some sz
                \<or> (i_size input = None \<and> i_amount input = Some a \<and> sz = \<lfloor>a / 1\<rfloor>))
             \<and> - 2147483648 \<le> sz \<and> sz \<le> 2147483647"
  from h have sz: "i_size input = Some sz
                \<or> (i_size input = None \<and> i_amount input = Some a \<and> sz = \<lfloor>a / 1\<rfloor>)"
    and col: "integer_column sz" by (simp_all add: integer_column_def)
  show "\<exists>row. executeOrder d input
                     = Inr (d\<lparr>orders := orders d @ [row], nextId := nextId d + 1\<rparr>,
                            response_of row)
              \<and> r_success (response_of row)
              \<and> o_size row = sz \<and> o_price row = 1
              \<and> o_side row = i_side input \<and> o_userId row = i_userId input
              \<and> o_instrumentId row = ARS_INSTRUMENT_ID
              \<and> o_status row
                  = (if i_side input = CASH_OUT
                        \<and> getUserAvailableCash d (i_userId input) ARS_INSTRUMENT_ID < of_int sz
                     then REJECTED else FILLED)
              \<and> o_status row \<noteq> NEW"
    unfolding executeOrder_cash [OF assms] executeCashOperation_result [OF ars sz col] Let_def
    by (simp add: response_of_def)
qed

theorem cash_operation_outcomes_witness:
  "(\<exists>msg. executeOrder (demo_db [cash_in_1000]) (order_input 47 CASH_IN MARKET (Some 500) None None)
            = Inl (BusinessRuleError msg))
   \<and> (\<exists>row. executeOrder (demo_db [cash_in_1000])
                (order_input 66 CASH_OUT MARKET (Some 1500) None None)
              = Inr ((demo_db [cash_in_1000])\<lparr>orders := [cash_in_1000, row], nextId := 101\<rparr>,
                     response_of row)
          \<and> o_size row = 1500 \<and> o_price row = 1 \<and> o_status row = REJECTED)
   \<and> (\<exists>row. executeOrder (demo_db [cash_in_1000])
                (order_input 66 CASH_OUT LIMIT None (Some (1003 / 4)) None)
              = Inr ((demo_db [cash_in_1000])\<lparr>orders := [cash_in_1000, row], nextId := 101\<rparr>,
                     response_of row)
          \<and> o_size row = 250 \<and> o_price row = 1 \<and> o_status row = FILLED)"
proof -
  let ?d = "demo_db [cash_in_1000]"
  let ?i1 = "order_input 47 CASH_IN MARKET (Some 500) None None"
  let ?i2 = "order_input 66 CASH_OUT MARKET (Some 1500) None None"
  let ?i3 = "order_input 66 CASH_OUT LIMIT None (Some (1003 / 4)) None"
  have o: "orders ?d = [cash_in_1000]" "nextId ?d = 100" by (simp_all add: demo_db_def)
  have u: "findUserById ?d (i_userId (order_input k s ty sz am p)) = findUserById ?d 1"
    for k s ty sz am p by (simp add: order_input_def)
  have a: "\<exists>msg. executeOrder ?d ?i1 = Inl (BusinessRuleError msg)"
  proof -
    have "findInstrumentById ?d (i_instrumentId ?i1) = findInstrumentById ?d 47"
      by (simp add: order_input_def)
    from cash_operation_outcomes [OF u [THEN trans, OF demo_user] this [THEN trans, OF demo_pamp],
        THEN conjunct1]
    show ?thesis by (simp add: order_input_def ARS_INSTRUMENT_ID_def)
  qed
  have i66: "findInstrumentById ?d (i_instrumentId (order_input 66 s ty sz am p))
               = findInstrumentById ?d 66" for s ty sz am p
    by (simp add: order_input_def)
  have b: "\<exists>row. executeOrder ?d ?i2
              = Inr (?d\<lparr>orders := [cash_in_1000, row], nextId := 101\<rparr>, response_of row)
          \<and> o_size row = 1500 \<and> o_price row = 1 \<and> o_status row = REJECTED"
    using cash_operation_outcomes [OF u [THEN trans, OF demo_user] i66 [THEN trans, OF demo_ars],
        THEN conjunct2, rule_format, of CASH_OUT MARKET "Some 1500" None None 1500]
      demo_cash
    by (auto simp: order_input_def ARS_INSTRUMENT_ID_def o)
  have f: "\<lfloor>(1003 / 4 :: rat)\<rfloor> = 250" by (simp add: floor_eq_iff)
  have c: "\<exists>row. executeOrder ?d ?i3
              = Inr (?d\<lparr>orders := [cash_in_1000, row], nextId := 101\<rparr>, response_of row)
          \<and> o_size row = 250 \<and> o_price row = 1 \<and> o_status row = FILLED"
    using cash_operation_outcomes [OF u [THEN trans, OF demo_user] i66 [THEN trans, OF demo_ars],
        THEN conjunct2, rule_format, of CASH_OUT LIMIT None "Some (1003 / 4)" None 250 "1003 / 4"]
      demo_cash
    by (auto simp: order_input_def ARS_INSTRUMENT_ID_def o f)
  from a b c show ?thesis by blast
qed

text \<open>
  C9. A CASH_OUT on the cash instrument, of a size that the INTEGER column of the
  ledger holds: the row persisted on insufficient funds is REJECTED with kind MARKET
  and price 1 whatever kind the input had; the row of a CASH_OUT that passes validation
  is FILLED with the kind of the input.
\<close>

theorem rejected_cash_out_kind:
  assumes "i_side input = CASH_OUT"
      and "i_instrumentId input = ARS_INSTRUMENT_ID"
      and "i_size input = Some sz
           \<or> (i_size input = None \<and> i_amount input = Some a \<and> sz = \<lfloor>a / 1\<rfloor>)"
      and "- 2147483648 \<le> sz" and "sz \<le> 2147483647"
  shows "\<exists>row. executeCashOperation d input
                 = Inr (d\<lparr>orders := orders d @ [row], nextId := nextId d + 1\<rparr>, response_of row)
          \<and> (getUserAvailableCash d (i_userId input) ARS_INSTRUMENT_ID < of_int sz \<longrightarrow>
                o_status row = REJECTED \<and> o_type row = MARKET \<and> o_price row = 1)
          \<and> (\<not> getUserAvailableCash d (i_userId input) ARS_INSTRUMENT_ID < of_int sz \<longrightarrow>
                o_status row = FILLED \<and> o_type row = i_type input \<and> o_price row = 1)"
proof -
  let ?rej = "getUserAvailableCash d (i_userId input) ARS_INSTRUMENT_ID < of_int sz"
  let ?row = "\<lparr>o_id = nextId d,
               o_instrumentId = ARS_INSTRUMENT_ID,
               o_userId = i_userId input,
               o_size = sz,
               o_price = 1,
               o_type = (if ?rej then MARKET else i_type input),
               o_side = i_side input,
               o_status = (if ?rej then REJECTED else FILLED),
               o_datetime = now d\<rparr>"
  have col: "integer_column sz" using assms(4,5) by (simp add: integer_column_def)
  have "executeCashOperation d input
          = Inr (d\<lparr>orders := orders d @ [?row], nextId := nextId d + 1\<rparr>, response_of ?row)"
    using executeCashOperation_result [OF assms(2,3) col, of d] assms(1) by (simp add: Let_def)
  then show ?thesis
    by (intro exI [of _ ?row]) simp
qed

theorem rejected_cash_out_kind_witness:
  "(\<exists>row. executeCashOperation (demo_db [cash_in_1000])
             (order_input 66 CASH_OUT LIMIT (Some 1500) None None)
            = Inr ((demo_db [cash_in_1000])\<lparr>orders := [cash_in_1000, row], nextId := 101\<rparr>,
                   response_of row)
        \<and> o_status row = REJECTED \<and> o_type row = MARKET \<and> o_price row = 1)
   \<and> (\<exists>row. executeCashOperation (demo_db [cash_in_1000])
             (order_input 66 CASH_OUT LIMIT (Some 400) None None)
            = Inr ((demo_db [cash_in_1000])\<lparr>orders := [cash_in_1000, row], nextId := 101\<rparr>,
                   response_of row)
        \<and> o_status row = FILLED \<and> o_type row = LIMIT \<and> o_price row = 1)"
proof -
  let ?d = "demo_db [cash_in_1000]"
  let ?i1 = "order_input 66 CASH_OUT LIMIT (Some 1500) None None"
  let ?i2 = "order_input 66 CASH_OUT LIMIT (Some 400) None None"
  have o: "orders ?d = [cash_in_1000]" "nextId ?d = 100" by (simp_all add: demo_db_def)
  have a: "\<exists>row. executeCashOperation ?d ?i1
            = Inr (?d\<lparr>orders := [cash_in_1000, row], nextId := 101\<rparr>, response_of row)
        \<and> o_status row = REJECTED \<and> o_type row = MARKET \<and> o_price row = 1"
    using rejected_cash_out_kind [of ?i1 1500 _ ?d] demo_cash
    by (auto simp: order_input_def ARS_INSTRUMENT_ID_def o)
  have b: "\<exists>row. executeCashOperation ?d ?i2
            = Inr (?d\<lparr>orders := [cash_in_1000, row], nextId := 101\<rparr>, response_of row)
        \<and> o_status row = FILLED \<and> o_type row = LIMIT \<and> o_price row = 1"
    using rejected_cash_out_kind [of ?i2 400 _ ?d] demo_cash
    by (auto simp: order_input_def ARS_INSTRUMENT_ID_def o)
  from a b show ?thesis by blast
qed

section \<open>Stock orders: properties\<close>
















section \<open>A LIMIT order without a price\<close>

text \<open>
  C8, as claimed: \<open>executeOrder\<close> honours on its own that a LIMIT order needs a price and
  does not go on to compute an execution price from an absent one. The code has no such
  check (the request schema in front of it has): for a LIMIT SELL of 1 unit without a
  price, by a user who holds 2, the execution price is the string "undefined", the
  position check passes with it, and the call fails only when the INSERT refuses the
  string.
\<close>

theorem limit_without_price_counterexample:
  "executionPrice (order_input 47 SELL LIMIT (Some 1) None None)
      (getLatestMarketDataForInstrument (demo_db [cash_in_1000, held_2]) 47)
     = Inr Undefined_str
   \<and> validateOrder (demo_db [cash_in_1000, held_2]) 1 47 SELL (Fin 1) Undefined_str = Inr None
   \<and> executeOrder (demo_db [cash_in_1000, held_2]) (order_input 47 SELL LIMIT (Some 1) None None)
     = Inl DatabaseError"
  by (simp add: executeOrder_def executionPrice_def orderSize_def validateOrder_def persist_def
        createOrder_def getUserPositionForInstrument_def position_term_def findUserById_def
        findInstrumentById_def getLatestMarketDataForInstrument_def demo_defs held_2_def)

text \<open>
  C8, amended. For a LIMIT BUY or SELL without a price, user and instrument found, the
  execution price is \<open>String(undefined)\<close>, and no order is persisted: the call fails
  with a DecimalError where decimal arithmetic meets that string (an order that gives
  an amount, and the funds check of a BUY), and with a database error at the INSERT
  otherwise (a SELL that gives a size) --- never with a BusinessRule error.
\<close>

theorem limit_without_price:
  assumes "findUserById d (i_userId input) = Some u"
      and "findInstrumentById d (i_instrumentId input) = Some ins"
      and "i_side input = BUY \<or> i_side input = SELL"
      and "i_type input = LIMIT" and "i_price input = None"
  shows "executionPrice input (getLatestMarketDataForInstrument d (i_instrumentId input))
           = Inr Undefined_str
       \<and> executeOrder d input
           = (if i_size input = None \<or> i_side input = BUY
              then Inl DecimalError else Inl DatabaseError)"
proof -
  have p: "executionPrice input (getLatestMarketDataForInstrument d (i_instrumentId input))
           = Inr Undefined_str"
    using assms(4,5) by (simp add: executionPrice_def)
  have "executeOrder d input
           = (if i_size input = None \<or> i_side input = BUY
              then Inl DecimalError else Inl DatabaseError)"
    using assms
    by (auto simp: executeOrder_def p orderSize_def validateOrder_def persist_def createOrder_def
          Let_def split: option.splits)
  with p show ?thesis by simp
qed

theorem limit_without_price_witness:
  "executeOrder (demo_db [cash_in_1000, held_2]) (order_input 47 BUY LIMIT (Some 1) None None)
     = Inl DecimalError
   \<and> executeOrder (demo_db [cash_in_1000, held_2]) (order_input 47 SELL LIMIT None (Some 500) None)
     = Inl DecimalError
   \<and> executeOrder (demo_db [cash_in_1000, held_2]) (order_input 47 SELL LIMIT (Some 5) None None)
     = Inl DatabaseError"
proof -
  let ?d = "demo_db [cash_in_1000, held_2]"
  have u: "findUserById ?d (i_userId (order_input k s ty sz am p)) = findUserById ?d 1"
    for k s ty sz am p by (simp add: order_input_def)
  have i47: "findInstrumentById ?d (i_instrumentId (order_input 47 s ty sz am p))
               = findInstrumentById ?d 47" for s ty sz am p
    by (simp add: order_input_def)
  note T = limit_without_price [OF u [THEN trans, OF demo_user] i47 [THEN trans, OF demo_pamp],
             THEN conjunct2]
  have a: "executeOrder ?d (order_input 47 BUY LIMIT (Some 1) None None) = Inl DecimalError"
    using T [of BUY LIMIT "Some 1" None None] by (simp add: order_input_def)
  have b: "executeOrder ?d (order_input 47 SELL LIMIT None (Some 500) None) = Inl DecimalError"
    using T [of SELL LIMIT None "Some 500" None] by (simp add: order_input_def)
  have c: "executeOrder ?d (order_input 47 SELL LIMIT (Some 5) None None) = Inl DatabaseError"
    using T [of SELL LIMIT "Some 5" None None] by (simp add: order_input_def)
  from a b c show ?thesis by simp
qed

section \<open>Portfolio: properties\<close>

lemma applyOrder_spec:
  "applyOrder p r
     = p\<lparr>pc_quantity := fst (spec_replay (pc_quantity p, pc_totalCost p) r),
         pc_totalCost := snd (spec_replay (pc_quantity p, pc_totalCost p) r)\<rparr>"
  by (cases "o_side r") (simp_all add: applyOrder_def Let_def)

lemma foldl_applyOrder_spec:
  "foldl applyOrder p rs
     = p\<lparr>pc_quantity := fst (foldl spec_replay (pc_quantity p, pc_totalCost p) rs),
         pc_totalCost := snd (foldl spec_replay (pc_quantity p, pc_totalCost p) rs)\<rparr>"
proof (induction rs arbitrary: p)
  case Nil
  show ?case by simp
next
  case (Cons r rs)
  have "foldl applyOrder p (r # rs) = foldl applyOrder (applyOrder p r) rs"
    by simp
  also have "\<dots> = (applyOrder p r)
      \<lparr>pc_quantity := fst (foldl spec_replay
                             (pc_quantity (applyOrder p r), pc_totalCost (applyOrder p r)) rs),
       pc_totalCost := snd (foldl spec_replay
                              (pc_quantity (applyOrder p r), pc_totalCost (applyOrder p r)) rs)\<rparr>"
    by (rule Cons.IH)
  also have "\<dots> = p
      \<lparr>pc_quantity := fst (foldl spec_replay (pc_quantity p, pc_totalCost p) (r # rs)),
       pc_totalCost := snd (foldl spec_replay (pc_quantity p, pc_totalCost p) (r # rs))\<rparr>"
    by (simp add: applyOrder_spec del: spec_replay.simps)
  finally show ?case .
qed

lemma replayOrder_other:
  "k \<noteq> o_instrumentId r \<Longrightarrow> map_of (replayOrder m r) k = map_of m k"
  by (simp add: replayOrder_def Let_def update_conv')

lemma replayOrder_same:
  "o_instrumentId r = k \<Longrightarrow>
   map_of (replayOrder m r) k
     = Some (applyOrder (case map_of m k of
                           None \<Rightarrow> \<lparr>pc_instrumentId = k, pc_quantity = 0, pc_totalCost = 0\<rparr>
                         | Some pos \<Rightarrow> pos) r)"
  by (auto simp: replayOrder_def Let_def update_conv')

lemma replayOrder_distinct:
  "distinct (map fst m) \<Longrightarrow> distinct (map fst (replayOrder m r))"
  by (simp add: replayOrder_def Let_def distinct_update)

lemma foldl_replayOrder_distinct:
  "distinct (map fst m) \<Longrightarrow> distinct (map fst (foldl replayOrder m rs))"
  by (induction rs arbitrary: m) (simp_all add: replayOrder_distinct)

lemma foldl_replayOrder_lookup:
  "map_of (foldl replayOrder m rs) k =
     (if map_of m k = None \<and> filter (\<lambda>r. o_instrumentId r = k) rs = [] then None
      else Some (foldl applyOrder
                   (case map_of m k of
                      None \<Rightarrow> \<lparr>pc_instrumentId = k, pc_quantity = 0, pc_totalCost = 0\<rparr>
                    | Some pos \<Rightarrow> pos)
                   (filter (\<lambda>r. o_instrumentId r = k) rs)))"
proof (induction rs arbitrary: m)
  case Nil
  show ?case by (cases "map_of m k") simp_all
next
  case (Cons r rs)
  show ?case
  proof (cases "o_instrumentId r = k")
    case True
    then show ?thesis
      by (simp add: Cons.IH replayOrder_same [OF True])
  next
    case False
    then have "k \<noteq> o_instrumentId r" by simp
    from replayOrder_other [OF this] False show ?thesis
      by (simp add: Cons.IH)
  qed
qed

lemma map_of_filter_value:
  "distinct (map fst m) \<Longrightarrow>
   map_of (filter (\<lambda>(k, v). Q v) m) k
     = (case map_of m k of None \<Rightarrow> None | Some v \<Rightarrow> if Q v then Some v else None)"
proof (induction m)
  case Nil
  show ?case by simp
next
  case (Cons a m)
  obtain k' v' where a: "a = (k', v')" by (cases a)
  from Cons.prems a have notin: "k' \<notin> fst ` set m" by simp
  have none: "map_of (filter (\<lambda>(k, v). Q v) m) k' = None"
    using notin by (auto simp: map_of_eq_None_iff)
  show ?case
    using Cons a none by (auto split: option.splits)
qed

lemma calculatePositions_lookup:
  "map_of (calculatePositions ords) k =
     (if 0 < fst (spec_position k ords)
      then Some \<lparr>pc_instrumentId = k,
                 pc_quantity = fst (spec_position k ords),
                 pc_totalCost = snd (spec_position k ords)\<rparr>
      else None)"
proof -
  have d: "distinct (map fst (foldl replayOrder [] ords))"
    by (rule foldl_replayOrder_distinct) simp
  show ?thesis
    unfolding calculatePositions_def map_of_filter_value [OF d, of "\<lambda>pos. 0 < pc_quantity pos"]
      foldl_replayOrder_lookup spec_position_def
    by (simp add: foldl_applyOrder_spec)
qed

lemma applyOrder_sell_average:
  assumes "o_side r = SELL" and "pc_quantity p \<noteq> 0" and "o_size r \<noteq> pc_quantity p"
  shows "pc_totalCost (applyOrder p r) / of_int (pc_quantity (applyOrder p r))
           = pc_totalCost p / of_int (pc_quantity p)"
proof -
  let ?q = "of_int (pc_quantity p) :: rat"
  let ?s = "of_int (o_size r) :: rat"
  have q: "?q \<noteq> 0" using assms(2) by simp
  have qs: "?q - ?s \<noteq> 0" using assms(3) by (simp del: of_int_diff add: of_int_diff [symmetric])
  have "pc_totalCost p - ?s * (pc_totalCost p / ?q) = (pc_totalCost p / ?q) * (?q - ?s)"
    using q by (simp add: field_simps)
  then have "(pc_totalCost p - ?s * (pc_totalCost p / ?q)) / (?q - ?s) = pc_totalCost p / ?q"
    using qs by simp
  then show ?thesis
    using assms(1,2) by (simp add: applyOrder_def Let_def)
qed

lemma calculatePositions_positive:
  "(k, pos) \<in> set (calculatePositions ords) \<Longrightarrow> 0 < pc_quantity pos"
  by (simp add: calculatePositions_def)

lemma getFilledOrdersByUserId_sorted:
  "sorted (map o_datetime (getFilledOrdersByUserId d userId))"
  by (simp add: getFilledOrdersByUserId_def)

lemma getFilledOrdersByUserId_set:
  "set (getFilledOrdersByUserId d userId)
     = {r \<in> set (orders d). o_userId r = userId \<and> o_status r = FILLED}"
  by (auto simp: getFilledOrdersByUserId_def)

text \<open>
  C3. The position of an instrument that \<open>calculatePositions\<close> derives from a sequence
  of orders is the fold the specification words, over the orders of that instrument in
  the order given: a BUY adds the size and size times price, a SELL at quantity 0 is
  skipped, another SELL takes off the size and size times (totalCost / quantity). The
  instrument is in the result exactly when the folded quantity is positive, so a
  quantity of exactly 0 never appears. A SELL that leaves a quantity other than 0
  leaves the average cost per share as it was. The orders replayed are the FILLED
  orders of the user in ascending order of their timestamp.
\<close>

theorem calculatePositions_replay:
  "map_of (calculatePositions ords) k =
     (if 0 < fst (spec_position k ords)
      then Some \<lparr>pc_instrumentId = k,
                 pc_quantity = fst (spec_position k ords),
                 pc_totalCost = snd (spec_position k ords)\<rparr>
      else None)
   \<and> (fst (spec_position k ords) = 0 \<longrightarrow> k \<notin> fst ` set (calculatePositions ords))
   \<and> (o_side r = SELL \<and> pc_quantity p \<noteq> 0 \<and> o_size r \<noteq> pc_quantity p \<longrightarrow>
        pc_totalCost (applyOrder p r) / of_int (pc_quantity (applyOrder p r))
          = pc_totalCost p / of_int (pc_quantity p))
   \<and> sorted (map o_datetime (getFilledOrdersByUserId d userId))
   \<and> set (getFilledOrdersByUserId d userId)
        = {x \<in> set (orders d). o_userId x = userId \<and> o_status x = FILLED}"
proof -
  have "fst (spec_position k ords) = 0 \<longrightarrow> k \<notin> fst ` set (calculatePositions ords)"
  proof
    assume z: "fst (spec_position k ords) = 0"
    have "map_of (calculatePositions ords) k = None"
      using z by (simp add: calculatePositions_lookup)
    then show "k \<notin> fst ` set (calculatePositions ords)"
      by (simp add: map_of_eq_None_iff)
  qed
  then show ?thesis
    using calculatePositions_lookup [of ords k] applyOrder_sell_average [of r p]
      getFilledOrdersByUserId_sorted [of d userId] getFilledOrdersByUserId_set [of d userId]
    by blast
qed

theorem calculatePositions_replay_witness:
  "map_of (calculatePositions buy_10_sell_4) 47
     = Some \<lparr>pc_instrumentId = 47, pc_quantity = 6, pc_totalCost = 600\<rparr>
   \<and> 47 \<notin> fst ` set (calculatePositions buy_10_sell_10)
   \<and> pc_totalCost (applyOrder \<lparr>pc_instrumentId = 47, pc_quantity = 10, pc_totalCost = 1000\<rparr>
                      (stock_order 3 SELL 4 120 MARKET FILLED 30))
       / of_int (pc_quantity
                   (applyOrder \<lparr>pc_instrumentId = 47, pc_quantity = 10, pc_totalCost = 1000\<rparr>
                      (stock_order 3 SELL 4 120 MARKET FILLED 30))) = 100"
proof -
  have s1: "spec_position 47 buy_10_sell_4 = (6, 600)"
    by (simp add: spec_position_def demo_defs buy_10_sell_4_def)
  have s2: "spec_position 47 buy_10_sell_10 = (0, 0)"
    by (simp add: spec_position_def demo_defs buy_10_sell_10_def)
  have a: "map_of (calculatePositions buy_10_sell_4) 47
     = Some \<lparr>pc_instrumentId = 47, pc_quantity = 6, pc_totalCost = 600\<rparr>"
    using calculatePositions_replay [of buy_10_sell_4 47, THEN conjunct1] by (simp add: s1)
  have b: "47 \<notin> fst ` set (calculatePositions buy_10_sell_10)"
    using calculatePositions_replay [of buy_10_sell_10 47, THEN conjunct2, THEN conjunct1]
    by (simp add: s2)
  have c: "pc_totalCost (applyOrder \<lparr>pc_instrumentId = 47, pc_quantity = 10, pc_totalCost = 1000\<rparr>
                      (stock_order 3 SELL 4 120 MARKET FILLED 30))
       / of_int (pc_quantity
                   (applyOrder \<lparr>pc_instrumentId = 47, pc_quantity = 10, pc_totalCost = 1000\<rparr>
                      (stock_order 3 SELL 4 120 MARKET FILLED 30))) = 100"
    using calculatePositions_replay [of _ _ "stock_order 3 SELL 4 120 MARKET FILLED 30"
        "\<lparr>pc_instrumentId = 47, pc_quantity = 10, pc_totalCost = 1000\<rparr>",
        THEN conjunct2, THEN conjunct2, THEN conjunct1]
    by (simp add: stock_order_def)
  from a b c show ?thesis by simp
qed

text \<open>
  The two examples of the specification, through the whole of \<open>getUserPortfolio\<close>:
  BUY 10 at 100 then SELL 4 at 120 leaves quantity 6 at an average buy price of 100
  and a market value of 6 times the current price; BUY 10 then SELL 10 leaves no
  position.
\<close>

lemma demo_portfolio_average:
  "getUserPortfolio (demo_db (cash_in_1000 # buy_10_sell_4)) 1
     = Inr \<lparr>pf_userId = 1, pf_totalBalance = 1380, pf_availableCash = 480,
            pf_positions = [\<lparr>p_instrumentId = 47, p_ticker = ''PAMP'',
                             p_name = ''Pampa Holding'', p_quantity = 6,
                             p_averageBuyPrice = 100, p_currentPrice = 150,
                             p_marketValue = 900, p_totalReturn = 50,
                             p_dailyReturn = 357 / 50\<rparr>]\<rparr>"
  by code_simp

lemma demo_portfolio_liquidated:
  "getUserPortfolio (demo_db (cash_in_1000 # buy_10_sell_10)) 1
     = Inr \<lparr>pf_userId = 1, pf_totalBalance = 1200, pf_availableCash = 1200,
            pf_positions = []\<rparr>"
  by code_simp

lemma enrichPosition_quantity:
  "p \<in> set (enrichPosition marketDataMap instrumentMap entry) \<Longrightarrow>
   p_quantity p = pc_quantity (snd entry)"
  by (auto simp: enrichPosition_def Let_def split: option.splits)

lemma enrichPositions_quantity:
  assumes "p \<in> set (enrichPositions pcs marketDataMap instrumentMap)"
  shows "\<exists>entry \<in> set pcs. p_quantity p = pc_quantity (snd entry)"
proof -
  from assms obtain entry where e: "entry \<in> set pcs"
    and "p \<in> set (enrichPosition marketDataMap instrumentMap entry)"
    by (auto simp: enrichPositions_def)
  from enrichPosition_quantity [OF this(2)] e show ?thesis by blast
qed

text \<open>
  C10. Every position in the result of \<open>getUserPortfolio\<close> has a quantity greater than
  0: \<open>calculatePositions\<close> keeps an entry only when its replayed quantity is positive,
  so an instrument whose replayed quantity is 0 or negative (an over-sold history) is
  left out of the result.
\<close>

theorem portfolio_positions_positive:
  "(\<forall>pf. getUserPortfolio d userId = Inr pf \<longrightarrow> (\<forall>p \<in> set (pf_positions pf). 0 < p_quantity p))
   \<and> (\<forall>entry \<in> set (calculatePositions ords). 0 < pc_quantity (snd entry))
   \<and> (\<forall>pos. map_of (foldl replayOrder [] ords) k = Some pos \<and> pc_quantity pos \<le> 0 \<longrightarrow>
         k \<notin> fst ` set (calculatePositions ords))"
proof (intro conjI allI impI ballI)
  fix pf p
  assume r: "getUserPortfolio d userId = Inr pf" and p: "p \<in> set (pf_positions pf)"
  let ?pcs = "calculatePositions
                (filter (\<lambda>r. o_instrumentId r \<noteq> ARS_INSTRUMENT_ID)
                   (getFilledOrdersByUserId d userId))"
  from r p obtain mdm im where "p \<in> set (enrichPositions ?pcs mdm im)"
    by (auto simp: getUserPortfolio_def Let_def split: option.splits if_splits)
  then obtain entry where "entry \<in> set ?pcs" and q: "p_quantity p = pc_quantity (snd entry)"
    using enrichPositions_quantity by blast
  then have "0 < pc_quantity (snd entry)"
    using calculatePositions_positive [of "fst entry" "snd entry"] by simp
  with q show "0 < p_quantity p" by simp
next
  fix entry
  assume "entry \<in> set (calculatePositions ords)"
  then show "0 < pc_quantity (snd entry)"
    using calculatePositions_positive [of "fst entry" "snd entry" ords] by simp
next
  fix pos
  assume a: "map_of (foldl replayOrder [] ords) k = Some pos \<and> pc_quantity pos \<le> 0"
  have d: "distinct (map fst (foldl replayOrder [] ords))"
    by (rule foldl_replayOrder_distinct) simp
  have "map_of (calculatePositions ords) k = None"
    unfolding calculatePositions_def map_of_filter_value [OF d, of "\<lambda>pos. 0 < pc_quantity pos"]
    using a by simp
  then show "k \<notin> fst ` set (calculatePositions ords)"
    by (simp add: map_of_eq_None_iff)
qed

lemma demo_portfolio:
  "getUserPortfolio (demo_db [cash_in_1000, held_2]) 1
     = Inr \<lparr>pf_userId = 1, pf_totalBalance = 1000, pf_availableCash = 700,
            pf_positions = [\<lparr>p_instrumentId = 47, p_ticker = ''PAMP'',
                             p_name = ''Pampa Holding'', p_quantity = 2,
                             p_averageBuyPrice = 150, p_currentPrice = 150,
                             p_marketValue = 300, p_totalReturn = 0,
                             p_dailyReturn = 357 / 50\<rparr>]\<rparr>"
  by code_simp

theorem portfolio_positions_positive_witness:
  "(\<exists>pf. getUserPortfolio (demo_db [cash_in_1000, held_2]) 1 = Inr pf
         \<and> map p_quantity (pf_positions pf) = [2]
         \<and> (\<forall>p \<in> set (pf_positions pf). 0 < p_quantity p))
   \<and> map_of (foldl replayOrder [] buy_1_sell_3) 47
       = Some \<lparr>pc_instrumentId = 47, pc_quantity = - 2, pc_totalCost = - 200\<rparr>
   \<and> 47 \<notin> fst ` set (calculatePositions buy_1_sell_3)"
proof -
  have m: "map_of (foldl replayOrder [] buy_1_sell_3) 47
       = Some \<lparr>pc_instrumentId = 47, pc_quantity = - 2, pc_totalCost = - 200\<rparr>"
    by (simp add: replayOrder_def applyOrder_def demo_defs buy_1_sell_3_def Let_def)
  have a: "\<exists>pf. getUserPortfolio (demo_db [cash_in_1000, held_2]) 1 = Inr pf
         \<and> map p_quantity (pf_positions pf) = [2]
         \<and> (\<forall>p \<in> set (pf_positions pf). 0 < p_quantity p)"
    using portfolio_positions_positive [of "demo_db [cash_in_1000, held_2]" 1, THEN conjunct1]
      demo_portfolio by simp
  have b: "47 \<notin> fst ` set (calculatePositions buy_1_sell_3)"
    using portfolio_positions_positive [of _ _ buy_1_sell_3 47, THEN conjunct2, THEN conjunct2]
      m by simp
  from a m b show ?thesis by simp
qed

end
